theory Spec2Isabelle
  imports Main "HOL-Library.Word"
begin

unbundle bit_operations_syntax

section \<open>Go values used by package util\<close>

text \<open>
  A Go \<open>error\<close> value is modelled by what the package can observe of it: the text that
  \<open>err.Error()\<close> yields (it is formatted with \<open>%v\<close> in \<open>RemoveDevice\<close>) and the
  answer of \<open>os.IsNotExist(err)\<close> (asked in \<open>removeAsync\<close>). The nil error is
  \<open>None\<close> of \<open>error option\<close>.
\<close>

datatype error = Error (Error_text: string) (IsNotExist: bool)

text \<open>\<open>fmt.Errorf\<close> with the message already formatted: a plain error, never "not exist".\<close>

definition Errorf :: "string \<Rightarrow> error" where
  "Errorf msg = Error msg False"

text \<open>A run-time panic of the Go program: indexing a slice of the given length at an index.\<close>

datatype panic = IndexOutOfRange nat nat

text \<open>The helper library's executor, bound to a namespace path; the code holds a pointer to it.\<close>

datatype NamespaceExecutor = NamespaceExecutor string

record ScsiDevice =
  Target :: string
  TargetID :: int
  LunID :: int
  Device :: string
  Portal :: string
  BackingFile :: string
  BSType :: string
  BSOpts :: string

section \<open>The world outside the package\<close>

text \<open>
  Every call that leaves the package (the iSCSI helper library, the operating system) is a
  value of \<open>call\<close>, carrying the arguments the source passes. The outside world is a
  function that answers a call in a world state and returns the next world state; the
  package is modelled for every such function. A \<open>reply\<close> holds the results of a call;
  a call that returns fewer results leaves the other fields unread.

  \<open>remove_within_30s\<close> stands for the pair "start \<open>os.Remove\<close> on a goroutine, then
  select between its channel and a 30 second timer": \<open>r_timeout\<close> says that the timer
  fired first, and otherwise \<open>r_err\<close> is what \<open>os.Remove\<close> returned.
\<close>

datatype call =
    GetLocalIPs
  | NewNamespaceExecutor string
  | CheckForInitiatorExistence "NamespaceExecutor option"
  | StartDaemon bool
  | CreateTarget int string
  | AddLun int int string string string
  | BindInitiator int string
  | DiscoverTarget string string "NamespaceExecutor option"
  | LoginTarget string string "NamespaceExecutor option"
  | GetDevice string string int "NamespaceExecutor option"
  | LogoutTarget string string "NamespaceExecutor option"
  | DeleteDiscoveredTarget string string "NamespaceExecutor option"
  | UnbindInitiator int string
  | DeleteLun int int
  | DeleteTarget int
  | unix_Stat string
  | unix_Mknod string "32 word" "64 word"
  | os_Stat string
  | remove_within_30s string

record reply =
  r_ne :: "NamespaceExecutor option"
  r_dev :: string
  r_ips :: "string list"
  r_rdev :: "64 word"
  r_timeout :: bool
  r_err :: "error option"

type_synonym 'w outside = "call \<Rightarrow> 'w \<Rightarrow> reply \<times> 'w"

text \<open>
  An observer of the outside world: the same world, with every call and its reply appended
  to a trace. It changes no reply, so what holds of the trace holds of the calls the code makes.
\<close>

definition logged :: "'w outside \<Rightarrow> ((call \<times> reply) list \<times> 'w) outside" where
  "logged io c s = (case s of (tr, w) \<Rightarrow> (case io c w of (r, w') \<Rightarrow> (r, (tr @ [(c, r)], w'))))"

section \<open>ScsiDevice\<close>

text \<open>
  \<open>NewScsiDevice\<close> returns a pointer and an error, or panics: \<open>ips[0]\<close> is evaluated
  whenever the error is nil, whatever the length of \<open>ips\<close>.
\<close>

definition NewScsiDevice ::
  "'w outside \<Rightarrow> string \<Rightarrow> string \<Rightarrow> string \<Rightarrow> string \<Rightarrow> 'w
     \<Rightarrow> (panic + (ScsiDevice option \<times> error option)) \<times> 'w" where
  "NewScsiDevice io name backingFile bsType bsOpts w =
     (let dev = \<lparr>Target = ''iqn.2014-07.com.rancher:'' @ name, TargetID = 1, LunID = 1,
                 Device = '''', Portal = '''', BackingFile = backingFile,
                 BSType = bsType, BSOpts = bsOpts\<rparr>;
          (r, w1) = io GetLocalIPs w
      in
        (case r_err r of
           Some err \<Rightarrow> (Inr (None, Some err), w1)
         | None \<Rightarrow>
            (case r_ips r of
               [] \<Rightarrow> (Inl (IndexOutOfRange 0 0), w1)
             | ip # _ \<Rightarrow> (Inr (Some (dev\<lparr>Portal := ip\<rparr>), None), w1))))"

text \<open>
  \<open>Startup\<close> works on the device behind the pointer: the model returns the error and the
  device as the call leaves it. The last step assigns \<open>dev.Device\<close> and the error in one
  statement, before the error is tested.
\<close>

definition Startup :: "'w outside \<Rightarrow> ScsiDevice \<Rightarrow> 'w \<Rightarrow> error option \<times> ScsiDevice \<times> 'w" where
  "Startup io dev w =
     (let (r1, w1) = io (NewNamespaceExecutor ''/host/proc/1/ns/'') w; ne = r_ne r1 in
      case r_err r1 of Some err \<Rightarrow> (Some err, dev, w1) | None \<Rightarrow>
     (let (r2, w2) = io (CheckForInitiatorExistence ne) w1 in
      case r_err r2 of Some err \<Rightarrow> (Some err, dev, w2) | None \<Rightarrow>
     (let (r3, w3) = io (StartDaemon False) w2 in
      case r_err r3 of Some err \<Rightarrow> (Some err, dev, w3) | None \<Rightarrow>
     (let (r4, w4) = io (CreateTarget (TargetID dev) (Target dev)) w3 in
      case r_err r4 of Some err \<Rightarrow> (Some err, dev, w4) | None \<Rightarrow>
     (let (r5, w5) =
        io (AddLun (TargetID dev) (LunID dev) (BackingFile dev) (BSType dev) (BSOpts dev)) w4 in
      case r_err r5 of Some err \<Rightarrow> (Some err, dev, w5) | None \<Rightarrow>
     (let (r6, w6) = io (BindInitiator (TargetID dev) ''ALL'') w5 in
      case r_err r6 of Some err \<Rightarrow> (Some err, dev, w6) | None \<Rightarrow>
     (let (r7, w7) = io (DiscoverTarget (Portal dev) (Target dev) ne) w6 in
      case r_err r7 of Some err \<Rightarrow> (Some err, dev, w7) | None \<Rightarrow>
     (let (r8, w8) = io (LoginTarget (Portal dev) (Target dev) ne) w7 in
      case r_err r8 of Some err \<Rightarrow> (Some err, dev, w8) | None \<Rightarrow>
     (let (r9, w9) = io (GetDevice (Portal dev) (Target dev) (LunID dev) ne) w8;
          dev' = dev\<lparr>Device := r_dev r9\<rparr> in
      case r_err r9 of Some err \<Rightarrow> (Some err, dev', w9) | None \<Rightarrow>
      (None, dev', w9))))))))))"

abbreviation AlreadyDownError :: error where
  "AlreadyDownError \<equiv> Errorf ''SCSI Device is already down''"

definition Shutdown :: "'w outside \<Rightarrow> ScsiDevice \<Rightarrow> 'w \<Rightarrow> error option \<times> ScsiDevice \<times> 'w" where
  "Shutdown io dev w =
     (if Device dev = '''' then (Some (Errorf ''SCSI Device is already down''), dev, w)
      else
     (let (r1, w1) = io (NewNamespaceExecutor ''/host/proc/1/ns/'') w; ne = r_ne r1 in
      case r_err r1 of Some err \<Rightarrow> (Some err, dev, w1) | None \<Rightarrow>
     (let (r2, w2) = io (CheckForInitiatorExistence ne) w1 in
      case r_err r2 of Some err \<Rightarrow> (Some err, dev, w2) | None \<Rightarrow>
     (let (r3, w3) = io (LogoutTarget (Portal dev) (Target dev) ne) w2 in
      case r_err r3 of Some err \<Rightarrow> (Some err, dev, w3) | None \<Rightarrow>
      let dev' = dev\<lparr>Device := ''''\<rparr> in
     (let (r4, w4) = io (DeleteDiscoveredTarget (Portal dev') (Target dev') ne) w3 in
      case r_err r4 of Some err \<Rightarrow> (Some err, dev', w4) | None \<Rightarrow>
     (let (r5, w5) = io (UnbindInitiator (TargetID dev') ''ALL'') w4 in
      case r_err r5 of Some err \<Rightarrow> (Some err, dev', w5) | None \<Rightarrow>
     (let (r6, w6) = io (DeleteLun (TargetID dev') (LunID dev')) w5 in
      case r_err r6 of Some err \<Rightarrow> (Some err, dev', w6) | None \<Rightarrow>
     (let (r7, w7) = io (DeleteTarget (TargetID dev')) w6 in
      case r_err r7 of Some err \<Rightarrow> (Some err, dev', w7) | None \<Rightarrow>
      (None, dev', w7)))))))))"

section \<open>Device nodes\<close>

text \<open>
  \<open>stat.Rdev\<close> is a \<open>uint64\<close>; Go's \<open>int\<close> has 64 bits on the platforms the package
  is built for, and the conversions between the two keep the bits. Division and remainder
  are taken on the unsigned value; \<open><<\<close>, \<open>|\<close> and \<open>&\<close> work on the bits.
  The lines written to the log are left out.
\<close>

definition S_IFBLK :: "32 word" where
  "S_IFBLK = 0x6000"

definition mknod_dev :: "64 word \<Rightarrow> 64 word \<Rightarrow> 64 word" where
  "mknod_dev major minor =
     (push_bit 8 major) OR (minor AND 0xff) OR (push_bit 12 (minor AND 0xfff00))"

definition mknod :: "'w outside \<Rightarrow> string \<Rightarrow> 64 word \<Rightarrow> 64 word \<Rightarrow> 'w \<Rightarrow> error option \<times> 'w" where
  "mknod io device major minor w =
     (let fileMode = (0x180 :: 32 word) OR S_IFBLK; \<comment> \<open>\<open>0x180\<close> is octal \<open>0600\<close>\<close>
          dev = mknod_dev major minor;
          (r, w') = io (unix_Mknod device fileMode dev) w
      in (r_err r, w'))"

definition DuplicateDevice :: "'w outside \<Rightarrow> string \<Rightarrow> string \<Rightarrow> 'w \<Rightarrow> error option \<times> 'w" where
  "DuplicateDevice io src dest w =
     (let (stat, w1) = io (unix_Stat src) w in
      case r_err stat of Some err \<Rightarrow> (Some err, w1) | None \<Rightarrow>
     (let major = r_rdev stat div 256;
          minor = r_rdev stat mod 256;
          (err, w2) = mknod io dest major minor w1
      in (case err of Some err \<Rightarrow> (Some err, w2) | None \<Rightarrow> (None, w2))))"

text \<open>
  \<open>removeAsync\<close> as the list of values it sends on \<open>done\<close>, in order, given what
  \<open>os.Remove\<close> returned. After a failure other than "not exist" it sends the error and
  then nil as well.
\<close>

definition removeAsync :: "error option \<Rightarrow> error option list" where
  "removeAsync removed =
     (case removed of
        Some err \<Rightarrow> if \<not> IsNotExist err then [Some err, None] else [None]
      | None \<Rightarrow> [None])"

text \<open>\<open>remove\<close> returns the first value received from \<open>done\<close>, unless the timer fires first.\<close>

definition remove :: "'w outside \<Rightarrow> string \<Rightarrow> 'w \<Rightarrow> error option \<times> 'w" where
  "remove io path w =
     (let (r, w') = io (remove_within_30s path) w in
        if r_timeout r then (Some (Errorf (''Timeout trying to delete '' @ path @ ''.'')), w')
        else (case removeAsync (r_err r) of
                err # _ \<Rightarrow> (err, w')
              | [] \<Rightarrow> (Some (Errorf (''Timeout trying to delete '' @ path @ ''.'')), w')))"

definition RemoveDevice :: "'w outside \<Rightarrow> string \<Rightarrow> 'w \<Rightarrow> error option \<times> 'w" where
  "RemoveDevice io dev w =
     (let (st, w1) = io (os_Stat dev) w in
      case r_err st of
        None \<Rightarrow>
          (let (err, w2) = remove io dev w1 in
           (case err of
              Some err \<Rightarrow>
                (Some (Errorf (''Failed to removing device '' @ dev @ '', '' @ Error_text err)), w2)
            | None \<Rightarrow> (None, w2)))
      | Some _ \<Rightarrow> (None, w1))"

section \<open>The sequences of calls\<close>

text \<open>
  The nine steps of a startup and the seven calls of a shutdown, in the order the
  specification lists them. \<open>ne\<close> is the executor that the first step acquired.
\<close>

definition Startup_steps :: "ScsiDevice \<Rightarrow> NamespaceExecutor option \<Rightarrow> call list" where
  "Startup_steps dev ne =
     [NewNamespaceExecutor ''/host/proc/1/ns/'',
      CheckForInitiatorExistence ne,
      StartDaemon False,
      CreateTarget (TargetID dev) (Target dev),
      AddLun (TargetID dev) (LunID dev) (BackingFile dev) (BSType dev) (BSOpts dev),
      BindInitiator (TargetID dev) ''ALL'',
      DiscoverTarget (Portal dev) (Target dev) ne,
      LoginTarget (Portal dev) (Target dev) ne,
      GetDevice (Portal dev) (Target dev) (LunID dev) ne]"

definition Shutdown_steps :: "ScsiDevice \<Rightarrow> NamespaceExecutor option \<Rightarrow> call list" where
  "Shutdown_steps dev ne =
     [NewNamespaceExecutor ''/host/proc/1/ns/'',
      CheckForInitiatorExistence ne,
      LogoutTarget (Portal dev) (Target dev) ne,
      DeleteDiscoveredTarget (Portal dev) (Target dev) ne,
      UnbindInitiator (TargetID dev) ''ALL'',
      DeleteLun (TargetID dev) (LunID dev),
      DeleteTarget (TargetID dev)]"

section \<open>Concrete worlds\<close>

text \<open>
  A host on which every call succeeds, and the worlds derived from it in which the
  \<open>k\<close>-th call made is answered by a given reply instead. The world state counts the
  calls answered so far.
\<close>

definition ok_reply :: reply where
  "ok_reply = \<lparr>r_ne = Some (NamespaceExecutor ''/host/proc/1/ns/''), r_dev = ''/dev/sdb'',
               r_ips = [''10.42.0.7''], r_rdev = 0x801, r_timeout = False, r_err = None\<rparr>"

definition answering :: "nat \<Rightarrow> reply \<Rightarrow> nat outside" where
  "answering k bad c n = (if Suc n = k then bad else ok_reply, Suc n)"

definition failed :: "string \<Rightarrow> reply" where
  "failed msg = ok_reply\<lparr>r_dev := '''', r_err := Some (Errorf msg)\<rparr>"

definition vol :: ScsiDevice where
  "vol = \<lparr>Target = ''iqn.2014-07.com.rancher:vol'', TargetID = 1, LunID = 1, Device = '''',
          Portal = ''10.42.0.7'', BackingFile = ''/var/lib/vol.img'', BSType = ''aio'',
          BSOpts = ''''\<rparr>"

definition ok_ne :: "NamespaceExecutor option" where
  "ok_ne = Some (NamespaceExecutor ''/host/proc/1/ns/'')"

definition attached :: ScsiDevice where
  "attached = vol\<lparr>Device := ''/dev/sda''\<rparr>"

text \<open>The traces of five runs: what was called, and what was answered.\<close>

definition login_refused_trace :: "(call \<times> reply) list" where
  "login_refused_trace =
     map (\<lambda>c. (c, ok_reply)) (take 7 (Startup_steps vol ok_ne))
     @ [(LoginTarget (Portal vol) (Target vol) ok_ne, failed ''login refused'')]"

definition no_device_trace :: "(call \<times> reply) list" where
  "no_device_trace =
     map (\<lambda>c. (c, ok_reply)) (take 8 (Startup_steps vol ok_ne))
     @ [(GetDevice (Portal vol) (Target vol) (LunID vol) ok_ne, failed ''no such device'')]"

definition startup_trace :: "(call \<times> reply) list" where
  "startup_trace = map (\<lambda>c. (c, ok_reply)) (Startup_steps vol ok_ne)"

definition unbind_failed_trace :: "(call \<times> reply) list" where
  "unbind_failed_trace =
     map (\<lambda>c. (c, ok_reply)) (take 4 (Shutdown_steps vol ok_ne))
     @ [(UnbindInitiator (TargetID vol) ''ALL'', failed ''target busy'')]"

definition logout_failed_trace :: "(call \<times> reply) list" where
  "logout_failed_trace =
     map (\<lambda>c. (c, ok_reply)) (take 2 (Shutdown_steps vol ok_ne))
     @ [(LogoutTarget (Portal vol) (Target vol) ok_ne, failed ''session in use'')]"

text \<open>
  A directory that may not be searched: every \<open>os.Stat\<close> below it is refused, whatever
  exists there. The world state is the list of paths that exist.
\<close>

definition EACCES :: error where
  "EACCES = Error ''permission denied'' False"

definition ENOENT :: error where
  "ENOENT = Error ''no such file or directory'' True"

definition locked_dir :: "string list outside" where
  "locked_dir c fs =
     (case c of
        os_Stat p \<Rightarrow> (ok_reply\<lparr>r_err := Some EACCES\<rparr>, fs)
      | remove_within_30s p \<Rightarrow> (ok_reply, removeAll p fs)
      | _ \<Rightarrow> (ok_reply, fs))"

section \<open>Shared facts\<close>

lemmas world_defs =
  answering_def failed_def vol_def attached_def ok_reply_def ok_ne_def Errorf_def
  Startup_steps_def Shutdown_steps_def

lemmas run_defs = Startup_def Shutdown_def logged_def Let_def

lemma Shutdown_down:
  "Device dev = '''' \<Longrightarrow> Shutdown io dev w = (Some AlreadyDownError, dev, w)"
  by (simp add: Shutdown_def)

lemma Shutdown_success_Device:
  "Shutdown io dev w = (None, dev', w') \<Longrightarrow> Device dev' = ''''"
  by (auto simp: Shutdown_def Let_def split: if_splits prod.splits option.splits)

lemma NewScsiDevice_Device:
  "NewScsiDevice io name backingFile bsType bsOpts w = (Inr (Some dev, None), w')
     \<Longrightarrow> Device dev = ''''"
  by (auto simp: NewScsiDevice_def Let_def split: prod.splits option.splits list.splits)

text \<open>The result of \<open>Startup\<close> and the world it leaves do not depend on \<open>Device\<close>.\<close>

lemma Startup_Device_irrelevant:
  "fst (Startup io (dev\<lparr>Device := d\<rparr>) w) = fst (Startup io dev w)
   \<and> snd (snd (Startup io (dev\<lparr>Device := d\<rparr>) w)) = snd (snd (Startup io dev w))"
  by (simp add: Startup_def Let_def split: prod.splits option.splits)

text \<open>The runs of the concrete worlds.\<close>

lemma login_refused_run:
  "Startup (logged (answering 8 (failed ''login refused''))) vol ([], 0)
     = (Some (Errorf ''login refused''), vol, (login_refused_trace, 8))"
  by (simp add: run_defs login_refused_trace_def world_defs)

lemma no_device_run:
  "Startup (logged (answering 9 (failed ''no such device''))) vol ([], 0)
     = (Some (Errorf ''no such device''), vol, (no_device_trace, 9))"
  by (simp add: run_defs no_device_trace_def world_defs)

lemma startup_run:
  "Startup (logged (answering 0 ok_reply)) vol ([], 0)
     = (None, vol\<lparr>Device := ''/dev/sdb''\<rparr>, (startup_trace, 9))"
  by (simp add: run_defs startup_trace_def world_defs)

lemma restart_run:
  "Startup (logged (answering 0 ok_reply)) attached ([], 0)
     = (None, vol\<lparr>Device := ''/dev/sdb''\<rparr>, (startup_trace, 9))"
  by (simp add: run_defs startup_trace_def world_defs)

lemma unbind_failed_run:
  "Shutdown (logged (answering 5 (failed ''target busy''))) attached ([], 0)
     = (Some (Errorf ''target busy''), vol, (unbind_failed_trace, 5))"
  by (simp add: run_defs unbind_failed_trace_def world_defs)

lemma logout_failed_run:
  "Shutdown (logged (answering 3 (failed ''session in use''))) attached ([], 0)
     = (Some (Errorf ''session in use''), attached, (logout_failed_trace, 3))"
  by (simp add: run_defs logout_failed_trace_def world_defs)

lemma shutdown_run:
  "Shutdown (answering 0 ok_reply) attached 0 = (None, vol, 7)"
  by (simp add: run_defs world_defs)

lemma new_run:
  "NewScsiDevice (answering 0 ok_reply) ''vol'' ''/var/lib/vol.img'' ''aio'' '''' 0
     = (Inr (Some vol, None), 1)"
  by (simp add: NewScsiDevice_def Let_def world_defs)

section \<open>Construction\<close>

lemma NewScsiDevice_error:
  "io GetLocalIPs w = (r, w') \<Longrightarrow> r_err r = Some err
     \<Longrightarrow> NewScsiDevice io name backingFile bsType bsOpts w = (Inr (None, Some err), w')"
  by (simp add: NewScsiDevice_def)

lemma NewScsiDevice_first_address:
  "io GetLocalIPs w = (r, w') \<Longrightarrow> r_err r = None \<Longrightarrow> r_ips r = ip # ips
     \<Longrightarrow> \<exists>dev. NewScsiDevice io name backingFile bsType bsOpts w = (Inr (Some dev, None), w')
           \<and> Portal dev = ip \<and> Target dev = ''iqn.2014-07.com.rancher:'' @ name"
  by (simp add: NewScsiDevice_def)

text \<open>
  C1. Construction fails with a returned error when no local address is available, and
  otherwise takes the first address as the portal. The second half holds
  (\<open>NewScsiDevice_first_address\<close>), and so does the first when the address lookup itself
  returns an error (\<open>NewScsiDevice_error\<close>). When the lookup succeeds with an empty list
  of addresses, the code indexes the empty slice: the call panics and returns nothing.
\<close>

theorem NewScsiDevice_no_address_panics:
  "NewScsiDevice (answering 1 (ok_reply\<lparr>r_ips := []\<rparr>)) ''vol'' ''/var/lib/vol.img'' ''aio'' '''' 0
     = (Inl (IndexOutOfRange 0 0), 1)"
  by (simp add: NewScsiDevice_def Let_def world_defs)

section \<open>Startup\<close>

text \<open>
  C5. Startup makes its nine calls in the order of the specification, each with the
  arguments listed there. The calls made are a non-empty initial segment of the nine; every
  call but the last one made returned no error; what Startup returns is the error of the last
  call made, as it is; and Startup returns nil only after all nine calls. So the first call
  that returns an error ends the sequence, and that error is the result.
\<close>

theorem Startup_steps_in_order:
  assumes "Startup (logged io) dev ([], w) = (res, dev', (tr, w'))"
  shows "tr \<noteq> [] \<and> map fst tr = take (length tr) (Startup_steps dev (r_ne (snd (hd tr))))
       \<and> map (r_err \<circ> snd) (butlast tr) = replicate (length tr - 1) None
       \<and> res = r_err (snd (last tr))
       \<and> (if res = None then length tr = 9 else length tr \<le> 9)"
  using assms
  by (auto simp: Startup_def logged_def Let_def Startup_steps_def
      split: prod.splits option.splits)

text \<open>
  The login is refused: eight calls are made, and the refusal is returned. Nothing fails:
  nine calls are made, and nil is returned.
\<close>

theorem Startup_steps_in_order_witness:
  "Startup (logged (answering 8 (failed ''login refused''))) vol ([], 0)
     = (Some (Errorf ''login refused''), vol, (login_refused_trace, 8))
   \<and> map fst login_refused_trace = take 8 (Startup_steps vol ok_ne)
   \<and> map (r_err \<circ> snd) (butlast login_refused_trace) = replicate 7 None
   \<and> Some (Errorf ''login refused'') = r_err (snd (last login_refused_trace))
   \<and> Startup (logged (answering 0 ok_reply)) vol ([], 0)
       = (None, vol\<lparr>Device := ''/dev/sdb''\<rparr>, (startup_trace, 9))
   \<and> map fst startup_trace = Startup_steps vol ok_ne
   \<and> map (r_err \<circ> snd) startup_trace = replicate 9 None"
proof -
  have len: "length login_refused_trace = 8" "length startup_trace = 9"
    and ne: "r_ne (snd (hd login_refused_trace)) = ok_ne" "r_ne (snd (hd startup_trace)) = ok_ne"
    by (simp_all add: login_refused_trace_def startup_trace_def world_defs)
  have ok: "map (r_err \<circ> snd) startup_trace = replicate 9 None"
    by (simp add: startup_trace_def world_defs eval_nat_numeral)
  have nine: "length (Startup_steps vol ok_ne) = 9"
    by (simp add: Startup_steps_def)
  from Startup_steps_in_order [OF login_refused_run] Startup_steps_in_order [OF startup_run]
    len ne ok nine login_refused_run startup_run
  show ?thesis by simp
qed

text \<open>
  C2, as amended. Let \<open>Device\<close> be empty before the call and let Startup return an error.
  If one of the first eight steps failed, the device is unchanged and \<open>Device\<close> is still
  empty. If the ninth step failed, \<open>Device\<close> is the string that \<open>GetDevice\<close> returned
  together with its error: it is still empty exactly when that string is empty.
\<close>

theorem Startup_failure_Device:
  assumes "Device dev = ''''"
    and "Startup (logged io) dev ([], w) = (Some err, dev', (tr, w'))"
  shows "if length tr < 9 then dev' = dev \<and> Device dev' = ''''
         else fst (last tr) = GetDevice (Portal dev) (Target dev) (LunID dev) (r_ne (snd (hd tr)))
            \<and> r_err (snd (last tr)) = Some err
            \<and> dev' = dev\<lparr>Device := r_dev (snd (last tr))\<rparr>"
  using assms
  by (auto simp: Startup_def logged_def Let_def split: prod.splits option.splits)

text \<open>
  The device path cannot be resolved, and the library returns the empty path with its error:
  \<open>Device\<close> is empty. The login is refused: the device is as it was.
\<close>

theorem Startup_failure_Device_witness:
  "Device vol = ''''
   \<and> Startup (logged (answering 9 (failed ''no such device''))) vol ([], 0)
       = (Some (Errorf ''no such device''), vol, (no_device_trace, 9))
   \<and> fst (last no_device_trace) = GetDevice (Portal vol) (Target vol) (LunID vol) ok_ne
   \<and> r_err (snd (last no_device_trace)) = Some (Errorf ''no such device'')
   \<and> r_dev (snd (last no_device_trace)) = ''''
   \<and> vol = vol\<lparr>Device := r_dev (snd (last no_device_trace))\<rparr>
   \<and> Startup (logged (answering 8 (failed ''login refused''))) vol ([], 0)
       = (Some (Errorf ''login refused''), vol, (login_refused_trace, 8))
   \<and> length login_refused_trace < 9"
proof -
  have d: "Device vol = ''''" by (simp add: vol_def)
  have len: "length no_device_trace = 9" "length login_refused_trace = 8"
    and ne: "r_ne (snd (hd no_device_trace)) = ok_ne"
    and path: "r_dev (snd (last no_device_trace)) = ''''"
    by (simp_all add: no_device_trace_def login_refused_trace_def world_defs)
  from Startup_failure_Device [OF d no_device_run] Startup_failure_Device [OF d login_refused_run]
    len ne path d no_device_run login_refused_run
  show ?thesis by simp
qed

text \<open>
  The claim as it was stated fails where the library returns a path together with its error:
  the device starts with an empty \<open>Device\<close>, Startup returns the error of the ninth step,
  and \<open>Device\<close> holds the path.
\<close>

theorem Startup_sets_Device_on_failure:
  "Device vol = ''''
   \<and> fst (Startup (answering 9 (ok_reply\<lparr>r_err := Some (Errorf ''no such device'')\<rparr>)) vol 0)
       = Some (Errorf ''no such device'')
   \<and> Device (fst (snd (Startup (answering 9 (ok_reply\<lparr>r_err := Some (Errorf ''no such device'')\<rparr>)) vol 0)))
       = ''/dev/sdb''
   \<and> Device (fst (snd (Startup (answering 9 (ok_reply\<lparr>r_err := Some (Errorf ''no such device'')\<rparr>)) vol 0)))
       \<noteq> ''''"
  by (simp add: run_defs world_defs)

text \<open>
  C9. Startup does not look at \<open>Device\<close>: its result and the calls it makes are the same
  whatever \<open>Device\<close> holds when it is called. When it succeeds, all nine calls were made
  and \<open>Device\<close> is the path that the ninth call returned, whatever it held before.
\<close>

theorem Startup_has_no_guard:
  "fst (Startup (logged io) (dev\<lparr>Device := d\<rparr>) ([], w)) = fst (Startup (logged io) dev ([], w))
   \<and> snd (snd (Startup (logged io) (dev\<lparr>Device := d\<rparr>) ([], w)))
       = snd (snd (Startup (logged io) dev ([], w)))
   \<and> (Startup (logged io) dev ([], w) = (None, dev', (tr, w')) \<longrightarrow>
        map fst tr = Startup_steps dev (r_ne (snd (hd tr)))
        \<and> dev' = dev\<lparr>Device := r_dev (snd (last tr))\<rparr>)"
proof -
  have "Startup (logged io) dev ([], w) = (None, dev', (tr, w')) \<Longrightarrow>
        map fst tr = Startup_steps dev (r_ne (snd (hd tr)))
        \<and> dev' = dev\<lparr>Device := r_dev (snd (last tr))\<rparr>"
    by (auto simp: Startup_def logged_def Let_def Startup_steps_def
        split: prod.splits option.splits)
  with Startup_Device_irrelevant [where io = "logged io" and dev = dev and d = d and w = "([], w)"]
  show ?thesis
    by blast
qed

text \<open>A device that is attached as \<open>/dev/sda\<close> is started again and comes out as \<open>/dev/sdb\<close>.\<close>

theorem Startup_has_no_guard_witness:
  "Device attached = ''/dev/sda''
   \<and> Startup (logged (answering 0 ok_reply)) attached ([], 0)
       = (None, vol\<lparr>Device := ''/dev/sdb''\<rparr>, (startup_trace, 9))
   \<and> map fst startup_trace = Startup_steps attached ok_ne
   \<and> vol\<lparr>Device := ''/dev/sdb''\<rparr> = attached\<lparr>Device := r_dev (snd (last startup_trace))\<rparr>"
proof -
  have ne: "r_ne (snd (hd startup_trace)) = ok_ne"
    and d: "Device attached = ''/dev/sda''"
    by (simp_all add: startup_trace_def world_defs)
  from Startup_has_no_guard [where io = "answering 0 ok_reply" and dev = attached and w = 0
      and dev' = "vol\<lparr>Device := ''/dev/sdb''\<rparr>" and tr = startup_trace and w' = 9]
    restart_run ne d
  show ?thesis by simp
qed

section \<open>Shutdown\<close>

text \<open>
  C3. For a device that is attached, Shutdown makes its calls in the order namespace
  executor, initiator check, logout, removal of the discovered target, unbind, delete LUN,
  delete target, and stops at the first error, which it returns. \<open>Device\<close> is cleared
  between the logout and the removal of the discovered target: if at most three calls were
  made (the logout or a step before it failed) the device is unchanged, so \<open>Device\<close> is
  still non-empty; once the fourth call is made \<open>Device\<close> is empty, whether the later
  steps succeed or one of them returns its error.
\<close>

theorem Shutdown_clears_Device_after_logout:
  assumes "Device dev \<noteq> ''''"
    and "Shutdown (logged io) dev ([], w) = (res, dev', (tr, w'))"
  shows "tr \<noteq> [] \<and> map fst tr = take (length tr) (Shutdown_steps dev (r_ne (snd (hd tr))))
       \<and> map (r_err \<circ> snd) (butlast tr) = replicate (length tr - 1) None
       \<and> res = r_err (snd (last tr))
       \<and> (if length tr \<le> 3 then dev' = dev \<and> Device dev' \<noteq> ''''
           else dev' = dev\<lparr>Device := ''''\<rparr>)
       \<and> (if res = None then length tr = 7 else length tr \<le> 7)"
  using assms
  by (auto simp: Shutdown_def logged_def Let_def Shutdown_steps_def
      split: prod.splits option.splits) metis+

text \<open>
  The unbind fails after a successful logout: the error is returned and \<open>Device\<close> is
  empty. The logout itself fails: the error is returned and \<open>Device\<close> is as before.
\<close>

theorem Shutdown_clears_Device_after_logout_witness:
  "Device attached \<noteq> ''''
   \<and> Shutdown (logged (answering 5 (failed ''target busy''))) attached ([], 0)
       = (Some (Errorf ''target busy''), attached\<lparr>Device := ''''\<rparr>, (unbind_failed_trace, 5))
   \<and> map fst unbind_failed_trace = take 5 (Shutdown_steps attached ok_ne)
   \<and> Some (Errorf ''target busy'') = r_err (snd (last unbind_failed_trace))
   \<and> Shutdown (logged (answering 3 (failed ''session in use''))) attached ([], 0)
       = (Some (Errorf ''session in use''), attached, (logout_failed_trace, 3))
   \<and> map fst logout_failed_trace = take 3 (Shutdown_steps attached ok_ne)
   \<and> Some (Errorf ''session in use'') = r_err (snd (last logout_failed_trace))"
proof -
  have d: "Device attached \<noteq> ''''" by (simp add: world_defs)
  have v: "attached\<lparr>Device := ''''\<rparr> = vol" by (simp add: world_defs)
  have len: "length unbind_failed_trace = 5" "length logout_failed_trace = 3"
    and ne: "r_ne (snd (hd unbind_failed_trace)) = ok_ne"
      "r_ne (snd (hd logout_failed_trace)) = ok_ne"
    by (simp_all add: unbind_failed_trace_def logout_failed_trace_def world_defs)
  from Shutdown_clears_Device_after_logout [OF d unbind_failed_run]
    Shutdown_clears_Device_after_logout [OF d logout_failed_run]
    len ne d v unbind_failed_run logout_failed_run
  show ?thesis by simp
qed

text \<open>
  C4. Shutdown of a device whose \<open>Device\<close> is empty returns the "already down" error at
  once: the device and the outside world are as before, and no call is added to the trace.
  A device that was just constructed is such a device, and so is the device that a
  successful Shutdown leaves: a second Shutdown fails with the same error.
\<close>

theorem Shutdown_already_down:
  "(Device dev = '''' \<longrightarrow>
      Shutdown io dev w = (Some AlreadyDownError, dev, w)
      \<and> Shutdown (logged io) dev (tr, w) = (Some AlreadyDownError, dev, (tr, w)))
   \<and> (NewScsiDevice ion name backingFile bsType bsOpts wn = (Inr (Some fresh, None), wn') \<longrightarrow>
      Shutdown io fresh w = (Some AlreadyDownError, fresh, w))
   \<and> (Shutdown iop was_attached wp = (None, down, wp') \<longrightarrow>
      Shutdown io down w = (Some AlreadyDownError, down, w))"
  using Shutdown_down NewScsiDevice_Device Shutdown_success_Device
  by metis

text \<open>
  The device \<open>vol\<close> is down; it is what the constructor returns; and it is what a successful
  Shutdown of the attached device leaves.
\<close>

theorem Shutdown_already_down_witness:
  "Device vol = ''''
   \<and> Shutdown (logged (answering 0 ok_reply)) vol ([], 0) = (Some AlreadyDownError, vol, ([], 0))
   \<and> NewScsiDevice (answering 0 ok_reply) ''vol'' ''/var/lib/vol.img'' ''aio'' '''' 0
       = (Inr (Some vol, None), 1)
   \<and> Shutdown (answering 0 ok_reply) vol 1 = (Some AlreadyDownError, vol, 1)
   \<and> Shutdown (answering 0 ok_reply) attached 0 = (None, vol, 7)
   \<and> Shutdown (answering 0 ok_reply) vol 7 = (Some AlreadyDownError, vol, 7)"
proof -
  have d: "Device vol = ''''" by (simp add: vol_def)
  note at = Shutdown_already_down [where dev = vol and io = "answering 0 ok_reply"
      and ion = "answering 0 ok_reply" and wn = 0 and fresh = vol and wn' = 1
      and name = "''vol''" and backingFile = "''/var/lib/vol.img''" and bsType = "''aio''"
      and bsOpts = "''''" and iop = "answering 0 ok_reply" and wp = 0
      and was_attached = attached and down = vol and wp' = 7]
  from at [where w = 0 and tr = "[]"] at [where w = 1] at [where w = 7] d new_run shutdown_run
  show ?thesis by simp
qed

section \<open>Device nodes\<close>

lemma div_256_drop: "(x :: 64 word) div 256 = drop_bit 8 x"
  by (simp add: drop_bit_eq_div)

lemma mod_256_take: "(x :: 64 word) mod 256 = take_bit 8 x"
  by (simp add: take_bit_eq_mod)

lemma low_mask: "(0xff :: 64 word) = mask 8"
  by (simp add: mask_eq_exp_minus_1)

lemma ext_mask: "(0xfff00 :: 64 word) = push_bit 8 (mask 12)"
  by (simp add: mask_eq_exp_minus_1 push_bit_eq_mult)

lemma minor_ext_zero: "push_bit 12 (((x :: 64 word) mod 256) AND 0xfff00) = 0"
  unfolding mod_256_take ext_mask
  by (rule bit_word_eqI) (auto simp: bit_simps)

lemma minor_low: "((x :: 64 word) mod 256) AND 0xff = x mod 256"
  unfolding mod_256_take low_mask
  by (rule bit_word_eqI) (auto simp: bit_simps)

lemma mknod_dev_roundtrip: "mknod_dev (x div 256) (x mod 256) = x"
  unfolding mknod_dev_def minor_ext_zero minor_low
  unfolding div_256_drop mod_256_take
  by (rule bit_word_eqI) (auto simp: bit_simps)

lemma minor_bound: "(x :: 64 word) mod 256 < 256"
  by (simp add: word_mod_less_divisor)

lemma block_mode: "(0x180 :: 32 word) OR S_IFBLK = 0x6180"
  by (simp add: S_IFBLK_def)

text \<open>
  C6. When the stat of the source succeeds with device identifier \<open>Rdev\<close>, DuplicateDevice
  calls \<open>mknod\<close> with major \<open>Rdev / 256\<close> and minor \<open>Rdev mod 256\<close>. The minor is below 256,
  so the extended-minor term of the encoding is zero and the encoded device number is
  \<open>Rdev\<close> again. The only call after the stat is the node creation at \<open>dest\<close>, with mode
  block device and \<open>0600\<close> and with device number \<open>Rdev\<close>; its error is the result.
\<close>

theorem DuplicateDevice_same_device_number:
  assumes "io (unix_Stat src) w = (stat, w1)"
    and "r_err stat = None"
    and "io (unix_Mknod dest 0x6180 (r_rdev stat)) w1 = (made, w2)"
  shows "DuplicateDevice io src dest w = mknod io dest (r_rdev stat div 256) (r_rdev stat mod 256) w1
       \<and> r_rdev stat mod 256 < 256
       \<and> push_bit 12 ((r_rdev stat mod 256) AND 0xfff00) = 0
       \<and> mknod_dev (r_rdev stat div 256) (r_rdev stat mod 256) = r_rdev stat
       \<and> DuplicateDevice (logged io) src dest ([], w)
           = (r_err made,
              ([(unix_Stat src, stat), (unix_Mknod dest 0x6180 (r_rdev stat), made)], w2))"
proof -
  have "DuplicateDevice io src dest w
          = mknod io dest (r_rdev stat div 256) (r_rdev stat mod 256) w1"
    using assms(1,2) by (simp add: DuplicateDevice_def Let_def split: prod.splits option.splits)
  moreover have "DuplicateDevice (logged io) src dest ([], w)
           = (r_err made,
              ([(unix_Stat src, stat), (unix_Mknod dest 0x6180 (r_rdev stat), made)], w2))"
    using assms
    by (simp add: DuplicateDevice_def mknod_def logged_def Let_def block_mode mknod_dev_roundtrip
        split: option.splits)
  ultimately show ?thesis
    using minor_bound minor_ext_zero mknod_dev_roundtrip by simp
qed

text \<open>The source is \<open>8:1\<close>, that is \<open>Rdev = 0x801\<close>.\<close>

theorem DuplicateDevice_same_device_number_witness:
  "answering 0 ok_reply (unix_Stat ''/dev/sdb'') 0 = (ok_reply, 1)
   \<and> r_err ok_reply = None \<and> r_rdev ok_reply = 0x801
   \<and> answering 0 ok_reply (unix_Mknod ''/dev/longhorn/vol'' 0x6180 0x801) 1 = (ok_reply, 2)
   \<and> (0x801 :: 64 word) div 256 = 8 \<and> (0x801 :: 64 word) mod 256 = 1
   \<and> mknod_dev 8 1 = 0x801
   \<and> DuplicateDevice (logged (answering 0 ok_reply)) ''/dev/sdb'' ''/dev/longhorn/vol'' ([], 0)
       = (None, ([(unix_Stat ''/dev/sdb'', ok_reply),
                  (unix_Mknod ''/dev/longhorn/vol'' 0x6180 0x801, ok_reply)], 2))"
proof -
  have s: "answering 0 ok_reply (unix_Stat ''/dev/sdb'') 0 = (ok_reply, 1)"
    and e: "r_err ok_reply = None"
    and r: "r_rdev ok_reply = 0x801"
    by (simp_all add: answering_def ok_reply_def)
  have m: "answering 0 ok_reply (unix_Mknod ''/dev/longhorn/vol'' 0x6180 (r_rdev ok_reply)) 1
             = (ok_reply, 2)"
    by (simp add: answering_def)
  have dm: "(0x801 :: 64 word) div 256 = 8" "(0x801 :: 64 word) mod 256 = 1"
    by simp_all
  from DuplicateDevice_same_device_number [where io = "answering 0 ok_reply"
      and src = "''/dev/sdb''" and w = 0 and dest = "''/dev/longhorn/vol''", OF s e m] s e r m dm
  show ?thesis by simp
qed

section \<open>Removal of a device file\<close>

lemma RemoveDevice_stat_failed:
  "io (os_Stat dev) w = (st, w1) \<Longrightarrow> r_err st = Some err
     \<Longrightarrow> RemoveDevice io dev w = (None, w1)"
  by (simp add: RemoveDevice_def)

lemma RemoveDevice_stat_failed_trace:
  "io (os_Stat dev) w = (st, w1) \<Longrightarrow> r_err st = Some err
     \<Longrightarrow> RemoveDevice (logged io) dev ([], w) = (None, ([(os_Stat dev, st)], w1))"
  by (simp add: RemoveDevice_def logged_def)

text \<open>
  C7. When the path does not exist (its stat returns a "not exist" error), RemoveDevice
  returns nil; the only call it makes is the stat: no removal is started and nothing waits
  on the timer.
\<close>

theorem RemoveDevice_missing_path:
  assumes "io (os_Stat dev) w = (st, w1)"
    and "r_err st = Some err"
    and "IsNotExist err"
  shows "RemoveDevice io dev w = (None, w1)
       \<and> RemoveDevice (logged io) dev ([], w) = (None, ([(os_Stat dev, st)], w1))"
proof
  show "RemoveDevice io dev w = (None, w1)"
    using assms(1,2) by (rule RemoveDevice_stat_failed)
  show "RemoveDevice (logged io) dev ([], w) = (None, ([(os_Stat dev, st)], w1))"
    using assms(1,2) by (rule RemoveDevice_stat_failed_trace)
qed

theorem RemoveDevice_missing_path_witness:
  "answering 1 (ok_reply\<lparr>r_err := Some ENOENT\<rparr>) (os_Stat ''/dev/longhorn/vol'') 0
     = (ok_reply\<lparr>r_err := Some ENOENT\<rparr>, 1)
   \<and> IsNotExist ENOENT
   \<and> RemoveDevice (logged (answering 1 (ok_reply\<lparr>r_err := Some ENOENT\<rparr>))) ''/dev/longhorn/vol'' ([], 0)
       = (None, ([(os_Stat ''/dev/longhorn/vol'', ok_reply\<lparr>r_err := Some ENOENT\<rparr>)], 1))"
proof -
  have s: "answering 1 (ok_reply\<lparr>r_err := Some ENOENT\<rparr>) (os_Stat ''/dev/longhorn/vol'') 0
     = (ok_reply\<lparr>r_err := Some ENOENT\<rparr>, 1)"
    by (simp add: answering_def)
  have e: "r_err (ok_reply\<lparr>r_err := Some ENOENT\<rparr>) = Some ENOENT" by simp
  have n: "IsNotExist ENOENT" by (simp add: ENOENT_def)
  from RemoveDevice_missing_path [where io = "answering 1 (ok_reply\<lparr>r_err := Some ENOENT\<rparr>)"
      and dev = "''/dev/longhorn/vol''" and w = 0, OF s e n] s n
  show ?thesis by simp
qed

text \<open>
  C10. RemoveDevice does not ask why the stat failed: whatever error the stat returns, it
  returns nil, and the only call it makes is the stat. No removal is attempted, the outside
  world is as the stat left it, and so a path that exists can still exist after RemoveDevice
  has returned nil.
\<close>

theorem RemoveDevice_ignores_stat_error:
  assumes "io (os_Stat dev) w = (st, w1)"
    and "r_err st = Some err"
  shows "RemoveDevice io dev w = (None, w1)
       \<and> RemoveDevice (logged io) dev ([], w) = (None, ([(os_Stat dev, st)], w1))
       \<and> remove_within_30s dev \<notin> fst ` set (fst (snd (RemoveDevice (logged io) dev ([], w))))"
proof -
  have "RemoveDevice io dev w = (None, w1)"
    using assms by (rule RemoveDevice_stat_failed)
  moreover have "RemoveDevice (logged io) dev ([], w) = (None, ([(os_Stat dev, st)], w1))"
    using assms by (rule RemoveDevice_stat_failed_trace)
  ultimately show ?thesis by simp
qed

text \<open>Permission is denied for the stat of a path that exists: nil is returned, the path stays.\<close>

theorem RemoveDevice_ignores_stat_error_witness:
  "locked_dir (os_Stat ''/dev/longhorn/vol'') [''/dev/longhorn/vol'']
     = (ok_reply\<lparr>r_err := Some EACCES\<rparr>, [''/dev/longhorn/vol''])
   \<and> \<not> IsNotExist EACCES
   \<and> RemoveDevice locked_dir ''/dev/longhorn/vol'' [''/dev/longhorn/vol'']
       = (None, [''/dev/longhorn/vol''])"
proof -
  have s: "locked_dir (os_Stat ''/dev/longhorn/vol'') [''/dev/longhorn/vol'']
     = (ok_reply\<lparr>r_err := Some EACCES\<rparr>, [''/dev/longhorn/vol''])"
    by (simp add: locked_dir_def)
  have e: "r_err (ok_reply\<lparr>r_err := Some EACCES\<rparr>) = Some EACCES" by simp
  have n: "\<not> IsNotExist EACCES" by (simp add: EACCES_def)
  from RemoveDevice_ignores_stat_error [where io = locked_dir and dev = "''/dev/longhorn/vol''"
      and w = "[''/dev/longhorn/vol'']", OF s e] s n
  show ?thesis by simp
qed

text \<open>
  What \<open>remove\<close> and RemoveDevice return once the path is there, given how the race between
  the removal and the timer ended.
\<close>

lemma remove_result:
  assumes "io (remove_within_30s path) w = (r, w')"
  shows "remove io path w =
     (if r_timeout r then Some (Errorf (''Timeout trying to delete '' @ path @ ''.''))
      else case r_err r of
             None \<Rightarrow> None
           | Some err \<Rightarrow> if IsNotExist err then None else Some err,
      w')"
  using assms by (simp add: remove_def removeAsync_def split: option.splits)

lemma RemoveDevice_result:
  assumes "io (os_Stat dev) w = (st, w1)"
    and "r_err st = None"
    and "remove io dev w1 = (removed, w2)"
  shows "RemoveDevice io dev w =
     (case removed of
        None \<Rightarrow> None
      | Some err \<Rightarrow>
          Some (Errorf (''Failed to removing device '' @ dev @ '', '' @ Error_text err)),
      w2)"
  using assms by (simp add: RemoveDevice_def split: option.splits)

end
